theory Spec2Isabelle
  imports Complex_Main
begin

section \<open>Numbers and vectors\<close>

text \<open>
  The program computes with JavaScript numbers. They are modelled as the reals:
  rounding, NaN and infinities are not represented. The sign of zero is kept where
  the program tells the two zeros apart: in the coordinates of a move event, which
  reach \<open>Math.atan2\<close>.
  A \<open>Vector3Tuple\<close> is the array \<open>[x, y, z]\<close>; a \<open>Vector3\<close> of the rendering
  library carries the same three components.
\<close>

type_synonym Vector3Tuple = "real \<times> real \<times> real"

type_synonym Vector3 = "real \<times> real \<times> real"

type_synonym Quaternion = "real \<times> real \<times> real \<times> real"

section \<open>Player state and the joystick handlers (App)\<close>

record PlayerState =
  position :: Vector3Tuple
  rotation :: real
  speed :: real
  hp :: real

text \<open>A coordinate of the joystick: a real value, where \<open>Num 0\<close> is the zero \<open>+0\<close>, or
  the negative zero \<open>-0\<close>.\<close>

datatype number = Num real | NegZero

fun num_value :: "number \<Rightarrow> real" where
  "num_value (Num r) = r"
| "num_value NegZero = 0"

text \<open>The unary minus: it takes \<open>+0\<close> to \<open>-0\<close> and \<open>-0\<close> to \<open>+0\<close>.\<close>

fun negate :: "number \<Rightarrow> number" where
  "negate (Num r) = (if r = 0 then NegZero else Num (- r))"
| "negate NegZero = Num 0"

text \<open>The fields of \<open>IJoystickUpdateEvent\<close> that \<open>handleMove\<close> reads: \<open>x\<close> and \<open>y\<close>,
  each a number or \<open>null\<close>.\<close>

record IJoystickUpdateEvent =
  event_x :: "number option"
  event_y :: "number option"

text \<open>The initial value of \<open>useState<PlayerState>\<close> in \<open>App\<close>.\<close>

definition App_initial :: PlayerState where
  "App_initial = \<lparr>position = (0, 115 / 10, 0), rotation = 0, speed = 0, hp = 100\<rparr>"

text \<open>\<open>Math.atan2 (y, x)\<close>: the angle in \<open>[-\<pi>, \<pi>]\<close> of the point \<open>(x, y)\<close>. Where \<open>y\<close> is
  a zero and \<open>x\<close> is negative or \<open>-0\<close>, the answer is \<open>\<pi>\<close> for \<open>y = +0\<close> and \<open>-\<pi>\<close> for
  \<open>y = -0\<close>; where \<open>y\<close> is a zero and \<open>x\<close> is positive or \<open>+0\<close>, it is the zero of the
  sign of \<open>y\<close>, here \<open>0\<close>.\<close>

definition Math_atan2 :: "number \<Rightarrow> number \<Rightarrow> real" where
  "Math_atan2 y x =
     (let yv = num_value y; xv = num_value x
      in if 0 < xv then arctan (yv / xv)
         else if xv < 0 then
           (if 0 < yv then arctan (yv / xv) + pi
            else if yv < 0 then arctan (yv / xv) - pi
            else (case y of Num _ \<Rightarrow> pi | NegZero \<Rightarrow> - pi))
         else if 0 < yv then pi / 2
         else if yv < 0 then - (pi / 2)
         else (case x of
                 Num _ \<Rightarrow> 0
               | NegZero \<Rightarrow> (case y of Num _ \<Rightarrow> pi | NegZero \<Rightarrow> - pi)))"

definition maxSpeed :: real where
  "maxSpeed = 55"

text \<open>\<open>handleMove\<close>: the state after the update queued by \<open>setPlayerState\<close>, or the
  state as it was when a coordinate is \<open>null\<close>.\<close>

definition handleMove :: "IJoystickUpdateEvent \<Rightarrow> PlayerState \<Rightarrow> PlayerState" where
  "handleMove event prev =
     (case (event_x event, event_y event) of
        (Some x, Some y) \<Rightarrow>
          (let angle = Math_atan2 x (negate y);
               distance =
                 min 1 (sqrt (num_value x * num_value x + num_value y * num_value y) / 50);
               newSpeed = distance * maxSpeed
           in prev\<lparr>rotation := angle, speed := newSpeed\<rparr>)
      | _ \<Rightarrow> prev)"

definition handleStop :: "PlayerState \<Rightarrow> PlayerState" where
  "handleStop prev = prev\<lparr>speed := 0\<rparr>"

section \<open>Scene nodes of the rendering library\<close>

text \<open>
  The components call the rendering library (three.js) for their vector arithmetic and
  for moving scene nodes. The library is not under src/; each of its operations
  below is modelled from what the spec says of it, in the way the library computes it.
\<close>

text \<open>Modelled from the spec: \<open>Vector3.add\<close> of the rendering library is missing from
  src/. It is the sum of the spec's \<open>P + S * (unit forward vector)\<close>, component by
  component.\<close>

definition Vector3_add :: "Vector3 \<Rightarrow> Vector3 \<Rightarrow> Vector3" where
  "Vector3_add v w =
     (case v of (vx, vy, vz) \<Rightarrow> case w of (wx, wy, wz) \<Rightarrow> (vx + wx, vy + wy, vz + wz))"

text \<open>Modelled from the spec: \<open>Vector3.multiplyScalar\<close> of the rendering library is
  missing from src/. It is the product of a vector and a scalar, as in the spec's
  \<open>S * (unit forward vector)\<close>.\<close>

definition Vector3_multiplyScalar :: "Vector3 \<Rightarrow> real \<Rightarrow> Vector3" where
  "Vector3_multiplyScalar v s = (case v of (vx, vy, vz) \<Rightarrow> (vx * s, vy * s, vz * s))"

text \<open>Modelled from the spec: the rotation of a scene node is missing from src/. The
  spec has the node's local rotation encode the heading \<open>R\<close>; the library keeps a
  rotation given as Euler angles \<open>(x, y, z)\<close>, applied in the order XYZ, as the unit
  quaternion \<open>(x, y, z, w)\<close> of the half angles.\<close>

definition Quaternion_setFromEuler :: "Vector3 \<Rightarrow> Quaternion" where
  "Quaternion_setFromEuler e =
     (case e of (ex, ey, ez) \<Rightarrow>
        (let c1 = cos (ex / 2); c2 = cos (ey / 2); c3 = cos (ez / 2);
             s1 = sin (ex / 2); s2 = sin (ey / 2); s3 = sin (ez / 2)
         in (s1 * c2 * c3 + c1 * s2 * s3,
             c1 * s2 * c3 - s1 * c2 * s3,
             c1 * c2 * s3 + s1 * s2 * c3,
             c1 * c2 * c3 - s1 * s2 * s3)))"

text \<open>Modelled from the spec: \<open>Vector3.applyQuaternion\<close> of the rendering library is
  missing from src/. It turns a vector by a rotation (the spec's "unit forward vector
  rotated by \<open>R\<close>"): \<open>v + w * t + q \<times> t\<close> with \<open>t = 2 * (q \<times> v)\<close>, for the vector part \<open>q\<close>
  and the scalar part \<open>w\<close> of the quaternion.\<close>

definition Vector3_applyQuaternion :: "Vector3 \<Rightarrow> Quaternion \<Rightarrow> Vector3" where
  "Vector3_applyQuaternion v q =
     (case v of (vx, vy, vz) \<Rightarrow> case q of (qx, qy, qz, qw) \<Rightarrow>
        (let tx = 2 * (qy * vz - qz * vy);
             ty = 2 * (qz * vx - qx * vz);
             tz = 2 * (qx * vy - qy * vx)
         in (vx + qw * tx + qy * tz - qz * ty,
             vy + qw * ty + qz * tx - qx * tz,
             vz + qw * tz + qx * ty - qy * tx)))"

text \<open>A scene node (a group or a mesh): its position and its rotation.\<close>

record Object3D =
  obj_position :: Vector3
  obj_quaternion :: Quaternion

text \<open>Modelled from the spec: \<open>Object3D.translateOnAxis\<close> and \<open>Object3D.translateZ\<close> of
  the rendering library are missing from src/. The spec has \<open>translateZ\<close> translate
  the node along its local forward axis (+Z in local space) by the given distance:
  the axis is turned by the rotation of the node, scaled by the distance and added to
  the position.\<close>

definition translateOnAxis :: "Object3D \<Rightarrow> Vector3 \<Rightarrow> real \<Rightarrow> Object3D" where
  "translateOnAxis obj axis distance =
     obj\<lparr>obj_position :=
       Vector3_add (obj_position obj)
         (Vector3_multiplyScalar (Vector3_applyQuaternion axis (obj_quaternion obj)) distance)\<rparr>"

definition translateZ :: "Object3D \<Rightarrow> real \<Rightarrow> Object3D" where
  "translateZ obj distance = translateOnAxis obj (0, 0, 1) distance"

section \<open>The player (Player)\<close>

text \<open>The node rendered for the player:
  \<open><group position={state.position} rotation={[0, state.rotation, 0]}>\<close>.\<close>

definition Player_group :: "PlayerState \<Rightarrow> Object3D" where
  "Player_group state =
     \<lparr>obj_position = position state,
      obj_quaternion = Quaternion_setFromEuler (0, rotation state, 0)\<rparr>"

text \<open>The frame callback of \<open>Player\<close>: \<open>groupRef\<close> is \<open>groupRef.current\<close> (\<open>None\<close> for
  \<open>null\<close>), \<open>state\<close> the state the component was rendered with, \<open>prev\<close> the state the
  update passed to \<open>setState\<close> receives.\<close>

definition Player_useFrame :: "Object3D option \<Rightarrow> PlayerState \<Rightarrow> PlayerState \<Rightarrow> PlayerState" where
  "Player_useFrame groupRef state prev =
     (case groupRef of
        None \<Rightarrow> prev
      | Some grp \<Rightarrow>
          (let pos = obj_position (translateZ grp (speed state))
           in prev\<lparr>position := pos\<rparr>))"

text \<open>One integration step: the callback on the node rendered from the current state.\<close>

definition integrate :: "PlayerState \<Rightarrow> PlayerState" where
  "integrate state = Player_useFrame (Some (Player_group state)) state state"

section \<open>The run of the application\<close>

text \<open>The three writers of the player state: a move event, a stop event, and a
  rendered frame (with the player's node mounted or not yet).\<close>

datatype Event = Move IJoystickUpdateEvent | Stop | Frame bool

fun App_step :: "PlayerState \<Rightarrow> Event \<Rightarrow> PlayerState" where
  "App_step state (Move event) = handleMove event state"
| "App_step state Stop = handleStop state"
| "App_step state (Frame mounted) =
     Player_useFrame (if mounted then Some (Player_group state) else None) state state"

definition App_run :: "Event list \<Rightarrow> PlayerState" where
  "App_run events = foldl App_step App_initial events"

section \<open>Ground plane and skybox (ChessboardPlane, SkyBox)\<close>

text \<open>The frame callbacks: \<open>position.set (p[0], 0, p[2])\<close> on the mesh when the
  reference is set.\<close>

definition ChessboardPlane_useFrame :: "Object3D option \<Rightarrow> Vector3Tuple \<Rightarrow> Object3D option" where
  "ChessboardPlane_useFrame planeRef playerPosition =
     (case planeRef of
        None \<Rightarrow> None
      | Some plane \<Rightarrow>
          Some (plane\<lparr>obj_position := (fst playerPosition, 0, snd (snd playerPosition))\<rparr>))"

definition SkyBox_useFrame :: "Object3D option \<Rightarrow> Vector3Tuple \<Rightarrow> Object3D option" where
  "SkyBox_useFrame skyboxRef pos =
     (case skyboxRef of
        None \<Rightarrow> None
      | Some skybox \<Rightarrow> Some (skybox\<lparr>obj_position := (fst pos, 0, snd (snd pos))\<rparr>))"

text \<open>The meshes as rendered: \<open><mesh rotation={[-Math.PI / 2, 0, 0]}>\<close> for the plane,
  \<open><mesh>\<close> for the skybox, both at the origin.\<close>

definition ChessboardPlane_mesh :: Object3D where
  "ChessboardPlane_mesh =
     \<lparr>obj_position = (0, 0, 0), obj_quaternion = Quaternion_setFromEuler (- pi / 2, 0, 0)\<rparr>"

definition SkyBox_mesh :: Object3D where
  "SkyBox_mesh = \<lparr>obj_position = (0, 0, 0), obj_quaternion = Quaternion_setFromEuler (0, 0, 0)\<rparr>"

text \<open>The properties \<open>App\<close> passes: \<open><ChessboardPlane playerPosition={[0,0,0]} />\<close> and
  \<open><SkyBox position={playerState.position} />\<close>.\<close>

definition App_ChessboardPlane_playerPosition :: "PlayerState \<Rightarrow> Vector3Tuple" where
  "App_ChessboardPlane_playerPosition playerState = (0, 0, 0)"

definition App_SkyBox_position :: "PlayerState \<Rightarrow> Vector3Tuple" where
  "App_SkyBox_position playerState = position playerState"

section \<open>The loading screen (LoadingScreen)\<close>

text \<open>The update passed to \<open>setProgress\<close> on every frame, and the progress shown after
  \<open>n\<close> frames, from \<open>useState(0)\<close>.\<close>

definition LoadingScreen_useFrame :: "real \<Rightarrow> real" where
  "LoadingScreen_useFrame prev = min (prev + 1 / 2) 100"

definition LoadingScreen_progress :: "nat \<Rightarrow> real" where
  "LoadingScreen_progress n = (LoadingScreen_useFrame ^^ n) 0"

section \<open>The checker texture (createChessboardTexture)\<close>

text \<open>
  A canvas: its size, the fill style of its 2D context, and its bitmap as rows of
  texels, each texel the colour last painted there. A canvas starts 300 by 150, and
  assigning \<open>width\<close> or \<open>height\<close> clears the bitmap to transparent black at the new
  size. \<open>fillRect (x, y, w, h)\<close> paints with the fill style the texels of the
  rectangle that lie on the bitmap.
\<close>

record HTMLCanvasElement =
  width :: nat
  height :: nat
  fillStyle :: string
  bitmap :: "string list list"

definition transparent :: string where
  "transparent = ''rgba(0, 0, 0, 0)''"

definition blank :: "nat \<Rightarrow> nat \<Rightarrow> string list list" where
  "blank w h = replicate h (replicate w transparent)"

definition createElement_canvas :: HTMLCanvasElement where
  "createElement_canvas =
     \<lparr>width = 300, height = 150, fillStyle = ''#000000'', bitmap = blank 300 150\<rparr>"

definition set_width :: "HTMLCanvasElement \<Rightarrow> nat \<Rightarrow> HTMLCanvasElement" where
  "set_width canvas w =
     canvas\<lparr>width := w, fillStyle := ''#000000'', bitmap := blank w (height canvas)\<rparr>"

definition set_height :: "HTMLCanvasElement \<Rightarrow> nat \<Rightarrow> HTMLCanvasElement" where
  "set_height canvas h =
     canvas\<lparr>height := h, fillStyle := ''#000000'', bitmap := blank (width canvas) h\<rparr>"

definition fillRect :: "HTMLCanvasElement \<Rightarrow> nat \<Rightarrow> nat \<Rightarrow> nat \<Rightarrow> nat \<Rightarrow> HTMLCanvasElement" where
  "fillRect ctx x y w h =
     ctx\<lparr>bitmap :=
       map (\<lambda>(j, row).
              map (\<lambda>(i, texel).
                     if x \<le> i \<and> i < x + w \<and> y \<le> j \<and> j < y + h
                     then fillStyle ctx else texel)
                (zip [0..<length row] row))
         (zip [0..<length (bitmap ctx)] (bitmap ctx))\<rparr>"

text \<open>The texel at column \<open>x\<close> of row \<open>y\<close>.\<close>

definition texel_at :: "HTMLCanvasElement \<Rightarrow> nat \<Rightarrow> nat \<Rightarrow> string" where
  "texel_at canvas x y = bitmap canvas ! y ! x"

definition size_px :: nat where
  "size_px = 32"

definition light :: string where
  "light = ''#0f6911''"

definition dark :: string where
  "dark = ''#005c02''"

text \<open>The 2D context of the canvas is written \<open>ctx\<close>: it shares the bitmap with the
  canvas, so one record stands for both.\<close>

text \<open>The inner loop \<open>for (let x = 0; x < size; x++)\<close> from \<open>x\<close> on, in row \<open>y\<close>.\<close>

function loop_x :: "nat \<Rightarrow> nat \<Rightarrow> HTMLCanvasElement \<Rightarrow> HTMLCanvasElement" where
  "loop_x y x ctx =
     (if x < size_px
      then (let isLight = ((x + y) mod 2 = 0);
                ctx = ctx\<lparr>fillStyle := (if isLight then light else dark)\<rparr>;
                ctx = fillRect ctx x y 1 1
            in loop_x y (x + 1) ctx)
      else ctx)"
  by pat_completeness auto
termination
  by (relation "measure (\<lambda>(y, x, ctx). size_px - x)") auto

text \<open>The outer loop \<open>for (let y = 0; y < size; y++)\<close> from \<open>y\<close> on.\<close>

function loop_y :: "nat \<Rightarrow> HTMLCanvasElement \<Rightarrow> HTMLCanvasElement" where
  "loop_y y ctx =
     (if y < size_px then loop_y (y + 1) (loop_x y 0 ctx) else ctx)"
  by pat_completeness auto
termination
  by (relation "measure (\<lambda>(y, ctx). size_px - y)") auto

declare loop_x.simps [simp del] loop_y.simps [simp del]

datatype Wrapping = RepeatWrapping | ClampToEdgeWrapping | MirroredRepeatWrapping

datatype TextureFilter = NearestFilter | LinearFilter | LinearMipmapLinearFilter

record Texture =
  image_tex :: HTMLCanvasElement
  needsUpdate :: bool
  repeat :: "real \<times> real"
  wrapS :: Wrapping
  wrapT :: Wrapping
  magFilter :: TextureFilter
  minFilter :: TextureFilter

text \<open>\<open>new THREE.Texture (canvas)\<close> with the library's defaults.\<close>

definition new_Texture :: "HTMLCanvasElement \<Rightarrow> Texture" where
  "new_Texture canvas =
     \<lparr>image_tex = canvas, needsUpdate = False, repeat = (1, 1),
      wrapS = ClampToEdgeWrapping, wrapT = ClampToEdgeWrapping,
      magFilter = LinearFilter, minFilter = LinearMipmapLinearFilter\<rparr>"

definition createChessboardTexture :: Texture where
  "createChessboardTexture =
     (let canvas = createElement_canvas;
          canvas = set_width canvas size_px;
          canvas = set_height canvas size_px;
          ctx = loop_y 0 canvas;
          texture = new_Texture ctx;
          texture = texture\<lparr>needsUpdate := True\<rparr>;
          texture = texture\<lparr>repeat := (10, 10)\<rparr>;
          texture = texture\<lparr>wrapT := RepeatWrapping\<rparr>;
          texture = texture\<lparr>wrapS := wrapT texture\<rparr>;
          texture = texture\<lparr>magFilter := NearestFilter\<rparr>;
          texture = texture\<lparr>minFilter := NearestFilter\<rparr>
      in texture)"

section \<open>Results\<close>

subsection \<open>The stop event\<close>

text \<open>
  C5. For every player state the stop event sets the speed to 0 and leaves the rotation
  (and the position and the hit points) as they were; a stop after a stop changes
  nothing, and so does any number of further stops.
\<close>

theorem handleStop_speed_rotation:
  "speed (handleStop s) = 0
   \<and> rotation (handleStop s) = rotation s
   \<and> position (handleStop s) = position s
   \<and> hp (handleStop s) = hp s
   \<and> handleStop (handleStop s) = handleStop s
   \<and> (handleStop ^^ n) (handleStop s) = handleStop s"
proof -
  have idem: "handleStop (handleStop s) = handleStop s"
    by (simp add: handleStop_def)
  have "(handleStop ^^ n) (handleStop s) = handleStop s"
    by (induction n) (simp_all add: handleStop_def)
  with idem show ?thesis
    by (simp add: handleStop_def)
qed

subsection \<open>Move events with a missing coordinate\<close>

text \<open>
  C8. A move event whose \<open>x\<close> or \<open>y\<close> is \<open>null\<close> leaves the whole player state as it
  was. \<open>handleMove\<close> has no failing branch: it returns a state on every event.
\<close>

theorem handleMove_null_ignored:
  "event_x event = None \<or> event_y event = None \<Longrightarrow> handleMove event prev = prev"
  by (auto simp: handleMove_def split: option.splits)

theorem handleMove_null_ignored_witness:
  "handleMove \<lparr>event_x = None, event_y = Some (Num 3)\<rparr> App_initial = App_initial
   \<and> handleMove \<lparr>event_x = Some (Num 3), event_y = None\<rparr> App_initial = App_initial
   \<and> handleMove \<lparr>event_x = None, event_y = None\<rparr> App_initial = App_initial"
  using handleMove_null_ignored [of "\<lparr>event_x = None, event_y = Some (Num 3)\<rparr>" App_initial]
    handleMove_null_ignored [of "\<lparr>event_x = Some (Num 3), event_y = None\<rparr>" App_initial]
    handleMove_null_ignored [of "\<lparr>event_x = None, event_y = None\<rparr>" App_initial]
  by simp

subsection \<open>Move events with coordinates\<close>

lemma sqrt_2500: "sqrt 2500 = 50"
  by (rule real_sqrt_unique) simp_all

lemma num_value_negate: "num_value (negate y) = - num_value y"
  by (cases y) simp_all

text \<open>\<open>Math.atan2\<close> is the polar angle: it lies in \<open>[-\<pi>, \<pi>]\<close>, and the point \<open>(x, y)\<close> is
  at that angle, at the distance \<open>sqrt (x\<^sup>2 + y\<^sup>2)\<close> from the origin.\<close>

lemma Math_atan2_range: "- pi \<le> Math_atan2 y x \<and> Math_atan2 y x \<le> pi"
proof -
  let ?t = "arctan (num_value y / num_value x)"
  have lb: "- (pi / 2) < ?t" and ub: "?t < pi / 2"
    by (rule arctan_lbound, rule arctan_ubound)
  have neg: "?t < 0" if "num_value x < 0" "0 < num_value y"
    using that by (simp add: divide_pos_neg arctan_less_zero_iff)
  have pos: "0 < ?t" if "num_value x < 0" "num_value y < 0"
    using that by (simp add: divide_neg_neg zero_less_arctan_iff)
  show ?thesis
    using lb ub neg pos pi_gt_zero
    by (auto simp add: Math_atan2_def Let_def split: number.split)
qed

lemma polar_arctan:
  assumes "x \<noteq> 0"
  shows "sqrt (x * x + y * y) * cos (arctan (y / x)) = \<bar>x\<bar>"
    and "sqrt (x * x + y * y) * sin (arctan (y / x)) = \<bar>x\<bar> * (y / x)"
proof -
  have "1 + (y / x)\<^sup>2 = (x * x + y * y) / (x * x)"
    using assms by (simp add: power2_eq_square field_simps)
  then have "sqrt (1 + (y / x)\<^sup>2) = sqrt (x * x + y * y) / \<bar>x\<bar>"
    by (simp add: real_sqrt_divide)
  moreover have "0 < sqrt (x * x + y * y)"
    using assms by (simp add: sum_squares_gt_zero_iff)
  ultimately show "sqrt (x * x + y * y) * cos (arctan (y / x)) = \<bar>x\<bar>"
    and "sqrt (x * x + y * y) * sin (arctan (y / x)) = \<bar>x\<bar> * (y / x)"
    using assms by (simp_all add: cos_arctan sin_arctan)
qed

lemma Math_atan2_polar:
  "sqrt (num_value x * num_value x + num_value y * num_value y) * cos (Math_atan2 y x)
     = num_value x
   \<and> sqrt (num_value x * num_value x + num_value y * num_value y) * sin (Math_atan2 y x)
     = num_value y"
proof -
  consider "0 < num_value x" | "num_value x < 0" "num_value y \<noteq> 0"
    | "num_value x < 0" "num_value y = 0" | "num_value x = 0" "0 < num_value y"
    | "num_value x = 0" "num_value y < 0" | "num_value x = 0" "num_value y = 0"
    by fastforce
  then show ?thesis
  proof cases
    case 1
    then show ?thesis
      using polar_arctan [of "num_value x" "num_value y"] by (simp add: Math_atan2_def Let_def)
  next
    case 2
    then show ?thesis
      using polar_arctan [of "num_value x" "num_value y"]
      by (cases "0 < num_value y") (simp_all add: Math_atan2_def Let_def)
  next
    case 3
    then show ?thesis
      by (simp add: Math_atan2_def Let_def split: number.split)
  next
    case 4
    then show ?thesis by (simp add: Math_atan2_def Let_def)
  next
    case 5
    then show ?thesis by (simp add: Math_atan2_def Let_def)
  next
    case 6
    then show ?thesis by (simp add: Math_atan2_def Let_def)
  qed
qed

lemma handleMove_Some:
  "handleMove \<lparr>event_x = Some x, event_y = Some y\<rparr> prev =
     prev\<lparr>rotation := Math_atan2 x (negate y),
          speed := min 1 (sqrt (num_value x * num_value x + num_value y * num_value y) / 50) * 55\<rparr>"
  by (simp add: handleMove_def maxSpeed_def Let_def)

text \<open>
  C3. For every move event with coordinates \<open>(x, y)\<close> the published rotation is
  \<open>Math.atan2 (x, -y)\<close> and the published speed is \<open>55 * min (1, sqrt (x\<^sup>2 + y\<^sup>2) / 50)\<close>.
  The speed lies in \<open>[0, 55]\<close> for every \<open>(x, y)\<close>, so also for those with
  \<open>x\<^sup>2 + y\<^sup>2 \<le> 50\<^sup>2\<close>. The rotation lies in \<open>[-\<pi>, \<pi>]\<close> and is the angle of the stick:
  \<open>sqrt (x\<^sup>2 + y\<^sup>2) * (sin rotation, cos rotation) = (x, -y)\<close>. The event \<open>(0, -50)\<close> gives
  rotation \<open>0\<close> and speed \<open>55\<close>; the stick pulled straight back (\<open>y > 0\<close>) gives rotation
  \<open>\<pi>\<close> for \<open>x = +0\<close> and \<open>-\<pi>\<close> for \<open>x = -0\<close>; the centred stick \<open>(0, 0)\<close> gives speed \<open>0\<close>
  and the rotation \<open>\<pi>\<close>, as \<open>-y\<close> is then \<open>-0\<close>; with \<open>x = -0\<close> it gives \<open>-\<pi>\<close>, and with
  \<open>y = -0\<close> it gives the rotation \<open>0\<close>.
\<close>

theorem handleMove_rotation_speed:
  "rotation (handleMove \<lparr>event_x = Some x, event_y = Some y\<rparr> prev) = Math_atan2 x (negate y)
   \<and> speed (handleMove \<lparr>event_x = Some x, event_y = Some y\<rparr> prev)
       = 55 * min 1 (sqrt ((num_value x)\<^sup>2 + (num_value y)\<^sup>2) / 50)
   \<and> 0 \<le> speed (handleMove \<lparr>event_x = Some x, event_y = Some y\<rparr> prev)
   \<and> speed (handleMove \<lparr>event_x = Some x, event_y = Some y\<rparr> prev) \<le> 55
   \<and> - pi \<le> rotation (handleMove \<lparr>event_x = Some x, event_y = Some y\<rparr> prev)
   \<and> rotation (handleMove \<lparr>event_x = Some x, event_y = Some y\<rparr> prev) \<le> pi
   \<and> sqrt ((num_value x)\<^sup>2 + (num_value y)\<^sup>2)
         * sin (rotation (handleMove \<lparr>event_x = Some x, event_y = Some y\<rparr> prev))
       = num_value x
   \<and> sqrt ((num_value x)\<^sup>2 + (num_value y)\<^sup>2)
         * cos (rotation (handleMove \<lparr>event_x = Some x, event_y = Some y\<rparr> prev))
       = - num_value y
   \<and> rotation (handleMove \<lparr>event_x = Some (Num 0), event_y = Some (Num (- 50))\<rparr> prev) = 0
   \<and> speed (handleMove \<lparr>event_x = Some (Num 0), event_y = Some (Num (- 50))\<rparr> prev) = 55
   \<and> (0 < num_value y \<longrightarrow>
        rotation (handleMove \<lparr>event_x = Some (Num 0), event_y = Some y\<rparr> prev) = pi
        \<and> rotation (handleMove \<lparr>event_x = Some NegZero, event_y = Some y\<rparr> prev) = - pi)
   \<and> rotation (handleMove \<lparr>event_x = Some (Num 0), event_y = Some (Num 0)\<rparr> prev) = pi
   \<and> rotation (handleMove \<lparr>event_x = Some NegZero, event_y = Some (Num 0)\<rparr> prev) = - pi
   \<and> rotation (handleMove \<lparr>event_x = Some (Num 0), event_y = Some NegZero\<rparr> prev) = 0
   \<and> rotation (handleMove \<lparr>event_x = Some NegZero, event_y = Some NegZero\<rparr> prev) = 0
   \<and> speed (handleMove \<lparr>event_x = Some (Num 0), event_y = Some (Num 0)\<rparr> prev) = 0"
proof -
  let ?s = "handleMove \<lparr>event_x = Some x, event_y = Some y\<rparr> prev"
  let ?r = "sqrt (num_value x * num_value x + num_value y * num_value y)"
  have rot: "rotation ?s = Math_atan2 x (negate y)"
    by (simp add: handleMove_Some)
  have spd: "speed ?s = 55 * min 1 (?r / 50)"
    by (simp add: handleMove_Some mult.commute)
  have nonneg: "0 \<le> 55 * min 1 (?r / 50)"
    by simp
  have le55: "55 * min 1 (?r / 50) \<le> 55"
    by simp
  have range: "- pi \<le> rotation ?s \<and> rotation ?s \<le> pi"
    by (simp only: rot Math_atan2_range)
  have polar: "?r * sin (rotation ?s) = num_value x \<and> ?r * cos (rotation ?s) = - num_value y"
    using Math_atan2_polar [of "negate y" x]
    by (simp add: rot num_value_negate add.commute)
  have forward: "rotation (handleMove \<lparr>event_x = Some (Num 0), event_y = Some (Num (- 50))\<rparr> prev) = 0"
    by (simp add: handleMove_Some Math_atan2_def)
  have full: "speed (handleMove \<lparr>event_x = Some (Num 0), event_y = Some (Num (- 50))\<rparr> prev) = 55"
    by (simp add: handleMove_Some sqrt_2500)
  have pulled: "rotation (handleMove \<lparr>event_x = Some (Num 0), event_y = Some y\<rparr> prev) = pi
      \<and> rotation (handleMove \<lparr>event_x = Some NegZero, event_y = Some y\<rparr> prev) = - pi"
    if "0 < num_value y"
    using that by (simp add: handleMove_Some Math_atan2_def num_value_negate)
  have centre:
    "rotation (handleMove \<lparr>event_x = Some (Num 0), event_y = Some (Num 0)\<rparr> prev) = pi"
    "rotation (handleMove \<lparr>event_x = Some NegZero, event_y = Some (Num 0)\<rparr> prev) = - pi"
    "rotation (handleMove \<lparr>event_x = Some (Num 0), event_y = Some NegZero\<rparr> prev) = 0"
    "rotation (handleMove \<lparr>event_x = Some NegZero, event_y = Some NegZero\<rparr> prev) = 0"
    "speed (handleMove \<lparr>event_x = Some (Num 0), event_y = Some (Num 0)\<rparr> prev) = 0"
    by (simp_all add: handleMove_Some Math_atan2_def)
  from rot spd nonneg le55 range polar forward full pulled centre show ?thesis
    unfolding power2_eq_square by presburger
qed

theorem handleMove_rotation_speed_witness:
  "0 < num_value (Num 50)
   \<and> rotation (handleMove \<lparr>event_x = Some (Num 0), event_y = Some (Num 50)\<rparr> App_initial) = pi
   \<and> rotation (handleMove \<lparr>event_x = Some NegZero, event_y = Some (Num 50)\<rparr> App_initial) = - pi
   \<and> speed (handleMove \<lparr>event_x = Some (Num 0), event_y = Some (Num 50)\<rparr> App_initial) = 55"
proof -
  have h: "0 < num_value (Num 50)"
    by simp
  have "sqrt ((num_value (Num 0))\<^sup>2 + (num_value (Num 50))\<^sup>2) = 50"
    by (simp add: sqrt_2500)
  with h handleMove_rotation_speed [of "Num 0" "Num 50" App_initial] show ?thesis
    by simp
qed

subsection \<open>The movement integrator\<close>

text \<open>The local forward axis of a node turned by \<open>R\<close> about the vertical axis, from the
  half-angle form the quaternion gives.\<close>

lemma forward_axis:
  "Vector3_applyQuaternion (0, 0, 1) (Quaternion_setFromEuler (0, R, 0)) = (sin R, 0, cos R)"
proof -
  have s: "sin R = 2 * sin (R / 2) * cos (R / 2)"
    using sin_double [of "R / 2"] by simp
  have c: "cos R = 1 - 2 * (sin (R / 2) * sin (R / 2))"
    using cos_double_sin [of "R / 2"] by (simp add: power2_eq_square)
  show ?thesis
    by (simp add: Vector3_applyQuaternion_def Quaternion_setFromEuler_def Let_def s c)
qed

lemma integrate_eq:
  "integrate state =
     state\<lparr>position := Vector3_add (position state)
        (Vector3_multiplyScalar (sin (rotation state), 0, cos (rotation state)) (speed state))\<rparr>"
  by (simp add: integrate_def Player_useFrame_def Player_group_def translateZ_def
      translateOnAxis_def forward_axis Let_def)

text \<open>
  C2. One integration step takes position \<open>P\<close>, rotation \<open>R\<close> and speed \<open>S\<close> to
  \<open>P + S * (sin R, 0, cos R)\<close>; from \<open>(0, 0, 0)\<close> with rotation \<open>0\<close> and speed \<open>10\<close> it
  gives \<open>(0, 0, 10)\<close>; the y-coordinate is the same after one step and after any
  number of steps.
\<close>

theorem integrate_translation:
  "position (integrate state) =
     Vector3_add (position state)
       (Vector3_multiplyScalar (sin (rotation state), 0, cos (rotation state)) (speed state))
   \<and> position (integrate \<lparr>position = (px, py, pz), rotation = R, speed = S, hp = h\<rparr>)
       = (px + S * sin R, py, pz + S * cos R)
   \<and> position (integrate \<lparr>position = (0, 0, 0), rotation = 0, speed = 10, hp = h\<rparr>) = (0, 0, 10)
   \<and> fst (snd (position (integrate state))) = fst (snd (position state))
   \<and> fst (snd (position ((integrate ^^ n) state))) = fst (snd (position state))"
proof -
  have y1: "fst (snd (position (integrate s))) = fst (snd (position s))" for s
    by (cases "position s") (simp add: integrate_eq Vector3_add_def Vector3_multiplyScalar_def)
  have "fst (snd (position ((integrate ^^ n) state))) = fst (snd (position state))"
    by (induction n) (simp_all add: y1)
  then show ?thesis
    by (simp add: y1) (simp add: integrate_eq Vector3_add_def Vector3_multiplyScalar_def mult.commute)
qed

lemma integrate_speed_0: "speed state = 0 \<Longrightarrow> integrate state = state"
  by (cases "position state") (simp add: integrate_eq Vector3_add_def Vector3_multiplyScalar_def)

text \<open>
  C6. With speed \<open>0\<close> the integrator leaves the position (indeed the whole state) as it
  was, for every position and rotation and any number \<open>n\<close> of steps.
\<close>

theorem integrate_speed_0_idempotent:
  "speed state = 0 \<Longrightarrow>
     (integrate ^^ n) state = state \<and> position ((integrate ^^ n) state) = position state"
proof -
  assume "speed state = 0"
  then have "(integrate ^^ n) state = state"
    by (induction n) (simp_all add: integrate_speed_0)
  then show ?thesis by simp
qed

theorem integrate_speed_0_idempotent_witness:
  "speed (handleStop App_initial) = 0
   \<and> (integrate ^^ 3) (handleStop App_initial) = handleStop App_initial
   \<and> position ((integrate ^^ 3) (handleStop App_initial)) = (0, 115 / 10, 0)"
  using integrate_speed_0_idempotent [of "handleStop App_initial" 3]
  by (simp add: handleStop_def App_initial_def)

subsection \<open>The hit points\<close>

lemma Player_useFrame_hp: "hp (Player_useFrame groupRef state prev) = hp prev"
  by (simp add: Player_useFrame_def split: option.split)

lemma handleMove_hp: "hp (handleMove event prev) = hp prev"
  by (simp add: handleMove_def Let_def split: option.split prod.split)

lemma handleStop_hp: "hp (handleStop prev) = hp prev"
  by (simp add: handleStop_def)

lemma App_step_hp: "hp (App_step state e) = hp state"
  by (cases e) (simp_all add: Player_useFrame_hp handleMove_hp handleStop_hp)

lemma foldl_App_step_hp: "hp (foldl App_step state events) = hp state"
  by (induction events arbitrary: state) (simp_all add: App_step_hp)

text \<open>
  C10. No operation writes the hit points: the move handler, the stop handler and the
  frame callback of the player each return a state with the \<open>hp\<close> they were given, so
  after any sequence of events the \<open>hp\<close> is the initial 100.
\<close>

theorem hp_never_written:
  "hp (handleMove event prev) = hp prev
   \<and> hp (handleStop prev) = hp prev
   \<and> hp (Player_useFrame groupRef state prev) = hp prev
   \<and> hp (App_run events) = 100"
  by (simp add: Player_useFrame_hp handleMove_hp handleStop_hp App_run_def
      foldl_App_step_hp App_initial_def)

subsection \<open>The loading screen\<close>

lemma LoadingScreen_progress_closed: "LoadingScreen_progress n = min (real n / 2) 100"
  by (induction n) (auto simp add: LoadingScreen_progress_def LoadingScreen_useFrame_def min_def)

text \<open>
  C9. The progress starts at \<open>0\<close> and each frame takes it to
  \<open>min (progress + 0.5, 100)\<close>, a function of the previous progress alone (the callback
  reads nothing of the loading itself); it never decreases, over one frame or over any
  number \<open>k\<close> of frames, and it stays within \<open>[0, 100]\<close>.
\<close>

theorem LoadingScreen_progress_monotone_bounded:
  "LoadingScreen_progress 0 = 0
   \<and> LoadingScreen_progress (Suc n) = min (LoadingScreen_progress n + 1 / 2) 100
   \<and> LoadingScreen_progress n \<le> LoadingScreen_progress (Suc n)
   \<and> LoadingScreen_progress n \<le> LoadingScreen_progress (n + k)
   \<and> 0 \<le> LoadingScreen_progress n
   \<and> LoadingScreen_progress n \<le> 100"
proof -
  have start: "LoadingScreen_progress 0 = 0"
    by (simp add: LoadingScreen_progress_def)
  have step: "LoadingScreen_progress (Suc n) = min (LoadingScreen_progress n + 1 / 2) 100"
    by (simp add: LoadingScreen_progress_def LoadingScreen_useFrame_def)
  have mono: "LoadingScreen_progress n \<le> LoadingScreen_progress (n + k)"
    by (simp add: LoadingScreen_progress_closed min_def)
  have mono1: "LoadingScreen_progress n \<le> LoadingScreen_progress (Suc n)"
    by (simp add: LoadingScreen_progress_closed min_def)
  have range: "0 \<le> LoadingScreen_progress n \<and> LoadingScreen_progress n \<le> 100"
    by (simp add: LoadingScreen_progress_closed)
  from start step mono mono1 range show ?thesis
    by blast
qed

subsection \<open>Re-centering of the ground plane\<close>

lemma App_run_move_frame:
  "App_run [Move \<lparr>event_x = Some (Num 0), event_y = Some (Num (- 50))\<rparr>, Frame True]
     = \<lparr>position = (0, 115 / 10, 55), rotation = 0, speed = 55, hp = 100\<rparr>"
proof -
  have "handleMove \<lparr>event_x = Some (Num 0), event_y = Some (Num (- 50))\<rparr> App_initial
        = \<lparr>position = (0, 115 / 10, 0), rotation = 0, speed = 55, hp = 100\<rparr>"
    by (simp add: handleMove_Some sqrt_2500 Math_atan2_def App_initial_def)
  then show ?thesis
    by (simp add: App_run_def integrate_eq [unfolded integrate_def]
        Vector3_add_def Vector3_multiplyScalar_def)
qed

text \<open>
  C1. The ground plane should follow the live player position, at
  \<open>(playerPosition.x, 0, playerPosition.z)\<close> on every frame. The frame callback of
  \<open>ChessboardPlane\<close> does set the plane from its \<open>playerPosition\<close> property, but \<open>App\<close>
  passes the constant \<open>[0, 0, 0]\<close> for it, so the plane is set to the origin whatever
  the player state is, while the skybox, which is passed the position of the player,
  follows it. After the move event \<open>(0, -50)\<close> and one frame the player is at
  \<open>(0, 11.5, 55)\<close> and the plane is not at \<open>(0, 0, 55)\<close>.
\<close>

theorem ChessboardPlane_fed_origin:
  "map_option obj_position
      (ChessboardPlane_useFrame (Some plane) (App_ChessboardPlane_playerPosition playerState))
     = Some (0, 0, 0)
   \<and> map_option obj_position
      (SkyBox_useFrame (Some skybox) (App_SkyBox_position playerState))
     = Some (fst (position playerState), 0, snd (snd (position playerState)))
   \<and> position (App_run [Move \<lparr>event_x = Some (Num 0), event_y = Some (Num (- 50))\<rparr>, Frame True])
     = (0, 115 / 10, 55)
   \<and> map_option obj_position
      (ChessboardPlane_useFrame (Some ChessboardPlane_mesh)
         (App_ChessboardPlane_playerPosition
            (App_run [Move \<lparr>event_x = Some (Num 0), event_y = Some (Num (- 50))\<rparr>, Frame True])))
     \<noteq> Some (0, 0, 55)
   \<and> map_option obj_position
      (SkyBox_useFrame (Some SkyBox_mesh)
         (App_SkyBox_position
            (App_run [Move \<lparr>event_x = Some (Num 0), event_y = Some (Num (- 50))\<rparr>, Frame True])))
     = Some (0, 0, 55)"
  by (simp add: App_run_move_frame ChessboardPlane_useFrame_def SkyBox_useFrame_def
      App_ChessboardPlane_playerPosition_def App_SkyBox_position_def)

subsection \<open>The checker texture\<close>

lemma fillRect_fields:
  "width (fillRect c x y w h) = width c"
  "height (fillRect c x y w h) = height c"
  "fillStyle (fillRect c x y w h) = fillStyle c"
  "length (bitmap (fillRect c x y w h)) = length (bitmap c)"
  by (simp_all add: fillRect_def)

lemma fillRect_row_length:
  "j < length (bitmap c) \<Longrightarrow> length (bitmap (fillRect c x y w h) ! j) = length (bitmap c ! j)"
  by (simp add: fillRect_def)

lemma fillRect_texel:
  "j < length (bitmap c) \<Longrightarrow> i < length (bitmap c ! j) \<Longrightarrow>
     texel_at (fillRect c x y w h) i j =
       (if x \<le> i \<and> i < x + w \<and> y \<le> j \<and> j < y + h then fillStyle c else texel_at c i j)"
  by (simp add: fillRect_def texel_at_def)

lemma loop_x_raster:
  assumes "length (bitmap c) = size_px" "\<forall>j < size_px. length (bitmap c ! j) = size_px"
  shows "length (bitmap (loop_x y x c)) = size_px
         \<and> (\<forall>j < size_px. length (bitmap (loop_x y x c) ! j) = size_px)
         \<and> (\<forall>i < size_px. \<forall>j < size_px.
               texel_at (loop_x y x c) i j =
                 (if j = y \<and> x \<le> i then (if (i + j) mod 2 = 0 then light else dark)
                  else texel_at c i j))"
  using assms
proof (induction y x c rule: loop_x.induct)
  case (1 y x ctx)
  show ?case
  proof (cases "x < size_px")
    case False
    then show ?thesis
      using "1.prems" by (simp add: loop_x.simps [of y x ctx])
  next
    case True
    let ?c1 = "ctx\<lparr>fillStyle := (if (x + y) mod 2 = 0 then light else dark)\<rparr>"
    let ?c2 = "fillRect ?c1 x y 1 1"
    have unfold: "loop_x y x ctx = loop_x y (x + 1) ?c2"
      using True by (simp add: loop_x.simps [of y x ctx] Let_def)
    have len: "length (bitmap ?c2) = size_px"
      using "1.prems" by (simp add: fillRect_fields)
    have rows: "\<forall>j < size_px. length (bitmap ?c2 ! j) = size_px"
      using "1.prems" by (simp add: fillRect_row_length)
    have tex: "texel_at ?c2 i j =
        (if i = x \<and> j = y then (if (x + y) mod 2 = 0 then light else dark) else texel_at ctx i j)"
      if "i < size_px" "j < size_px" for i j
    proof -
      have "texel_at ?c2 i j =
        (if x \<le> i \<and> i < x + 1 \<and> y \<le> j \<and> j < y + 1 then fillStyle ?c1 else texel_at ?c1 i j)"
        using that "1.prems" by (intro fillRect_texel) simp_all
      then show ?thesis
        by (auto simp add: texel_at_def)
    qed
    have IH: "length (bitmap (loop_x y (x + 1) ?c2)) = size_px
         \<and> (\<forall>j < size_px. length (bitmap (loop_x y (x + 1) ?c2) ! j) = size_px)
         \<and> (\<forall>i < size_px. \<forall>j < size_px.
               texel_at (loop_x y (x + 1) ?c2) i j =
                 (if j = y \<and> x + 1 \<le> i then (if (i + j) mod 2 = 0 then light else dark)
                  else texel_at ?c2 i j))"
      using "1.IH" [OF True refl refl refl len rows] .
    have "texel_at (loop_x y (x + 1) ?c2) i j =
            (if j = y \<and> x \<le> i then (if (i + j) mod 2 = 0 then light else dark)
             else texel_at ctx i j)"
      if ij: "i < size_px" "j < size_px" for i j
    proof -
      have "texel_at (loop_x y (x + 1) ?c2) i j =
              (if j = y \<and> x + 1 \<le> i then (if (i + j) mod 2 = 0 then light else dark)
               else texel_at ?c2 i j)"
        using IH ij by blast
      also have "\<dots> = (if j = y \<and> x \<le> i then (if (i + j) mod 2 = 0 then light else dark)
             else texel_at ctx i j)"
      proof (cases "i = x \<and> j = y")
        case True
        then show ?thesis using tex [OF ij] by simp
      next
        case False
        then have "j = y \<and> x + 1 \<le> i \<longleftrightarrow> j = y \<and> x \<le> i"
          by auto
        with False show ?thesis using tex [OF ij] by simp
      qed
      finally show ?thesis .
    qed
    with IH show ?thesis
      unfolding unfold by blast
  qed
qed

lemma loop_y_raster:
  assumes "length (bitmap c) = size_px" "\<forall>j < size_px. length (bitmap c ! j) = size_px"
  shows "length (bitmap (loop_y y c)) = size_px
         \<and> (\<forall>j < size_px. length (bitmap (loop_y y c) ! j) = size_px)
         \<and> (\<forall>i < size_px. \<forall>j < size_px.
               texel_at (loop_y y c) i j =
                 (if y \<le> j then (if (i + j) mod 2 = 0 then light else dark)
                  else texel_at c i j))"
  using assms
proof (induction y c rule: loop_y.induct)
  case (1 y ctx)
  show ?case
  proof (cases "y < size_px")
    case False
    then show ?thesis
      using "1.prems" by (simp add: loop_y.simps [of y ctx])
  next
    case True
    let ?c1 = "loop_x y 0 ctx"
    have unfold: "loop_y y ctx = loop_y (y + 1) ?c1"
      using True by (simp add: loop_y.simps [of y ctx])
    note row = loop_x_raster [OF "1.prems", of y 0]
    from row have len: "length (bitmap ?c1) = size_px"
      by blast
    from row have rows: "\<forall>j < size_px. length (bitmap ?c1 ! j) = size_px"
      by blast
    note IH = "1.IH" [OF True len rows]
    have "texel_at (loop_y (y + 1) ?c1) i j =
            (if y \<le> j then (if (i + j) mod 2 = 0 then light else dark) else texel_at ctx i j)"
      if ij: "i < size_px" "j < size_px" for i j
    proof -
      have "texel_at (loop_y (y + 1) ?c1) i j =
              (if y + 1 \<le> j then (if (i + j) mod 2 = 0 then light else dark)
               else texel_at ?c1 i j)"
        using IH ij by blast
      moreover have "texel_at ?c1 i j =
              (if j = y \<and> 0 \<le> i then (if (i + j) mod 2 = 0 then light else dark)
               else texel_at ctx i j)"
        using row ij by blast
      ultimately show ?thesis
        by (cases "j = y") auto
    qed
    with IH show ?thesis
      unfolding unfold by blast
  qed
qed

lemma blank_raster:
  "length (blank w h) = h" "j < h \<Longrightarrow> length (blank w h ! j) = w"
  by (simp_all add: blank_def)

lemma image_createChessboardTexture:
  "image_tex createChessboardTexture
     = loop_y 0 (set_height (set_width createElement_canvas size_px) size_px)"
  by (simp add: createChessboardTexture_def new_Texture_def Let_def)

lemma canvas_raster:
  "length (bitmap (set_height (set_width createElement_canvas size_px) size_px)) = size_px"
  "\<forall>j < size_px.
     length (bitmap (set_height (set_width createElement_canvas size_px) size_px) ! j) = size_px"
  by (simp_all add: set_height_def set_width_def blank_raster)

lemmas texture_raster =
  loop_y_raster [OF canvas_raster, of 0, folded image_createChessboardTexture]

lemma light_dark: "light \<noteq> dark"
  by (simp add: light_def dark_def)

lemma texel_createChessboardTexture:
  "x < size_px \<Longrightarrow> y < size_px \<Longrightarrow>
     texel_at (image_tex createChessboardTexture) x y = (if (x + y) mod 2 = 0 then light else dark)"
  using texture_raster by simp

lemma colours_createChessboardTexture:
  "set (concat (bitmap (image_tex createChessboardTexture))) = {light, dark}"
proof
  show "set (concat (bitmap (image_tex createChessboardTexture))) \<subseteq> {light, dark}"
  proof
    fix c
    assume "c \<in> set (concat (bitmap (image_tex createChessboardTexture)))"
    then obtain row where row: "row \<in> set (bitmap (image_tex createChessboardTexture))" "c \<in> set row"
      by auto
    from row(1) obtain j where j: "j < length (bitmap (image_tex createChessboardTexture))"
        "row = bitmap (image_tex createChessboardTexture) ! j"
      by (auto simp: in_set_conv_nth)
    from row(2) obtain i where i: "i < length row" "c = row ! i"
      by (auto simp: in_set_conv_nth)
    have jlt: "j < size_px"
      using j(1) texture_raster by simp
    have ilt: "i < size_px"
      using i(1) j(2) jlt texture_raster by simp
    have "c = texel_at (image_tex createChessboardTexture) i j"
      by (simp add: texel_at_def i(2) j(2))
    then show "c \<in> {light, dark}"
      by (simp add: texel_createChessboardTexture [OF ilt jlt])
  qed
next
  have in_set: "texel_at (image_tex createChessboardTexture) i j
                \<in> set (concat (bitmap (image_tex createChessboardTexture)))"
    if "i < size_px" "j < size_px" for i j
  proof -
    have j: "j < length (bitmap (image_tex createChessboardTexture))"
      using that texture_raster by simp
    have i: "i < length (bitmap (image_tex createChessboardTexture) ! j)"
      using that texture_raster by simp
    have "bitmap (image_tex createChessboardTexture) ! j \<in> set (bitmap (image_tex createChessboardTexture))"
      using j by simp
    moreover have "texel_at (image_tex createChessboardTexture) i j
                   \<in> set (bitmap (image_tex createChessboardTexture) ! j)"
      using i by (simp add: texel_at_def)
    ultimately show ?thesis
      by auto
  qed
  have "light \<in> set (concat (bitmap (image_tex createChessboardTexture)))"
    using in_set [of 0 0] by (simp add: texel_createChessboardTexture size_px_def)
  moreover have "dark \<in> set (concat (bitmap (image_tex createChessboardTexture)))"
    using in_set [of 1 0] by (simp add: texel_createChessboardTexture size_px_def)
  ultimately show "{light, dark} \<subseteq> set (concat (bitmap (image_tex createChessboardTexture)))"
    by simp
qed


lemma loop_x_size:
  "width (loop_x y x c) = width c \<and> height (loop_x y x c) = height c"
proof (induction y x c rule: loop_x.induct)
  case (1 y x ctx)
  show ?case
  proof (cases "x < size_px")
    case True
    then show ?thesis
      using "1.IH" [OF True refl refl refl]
      by (simp add: loop_x.simps [of y x ctx] Let_def fillRect_fields)
  next
    case False
    then show ?thesis
      by (simp add: loop_x.simps [of y x ctx])
  qed
qed

lemma loop_y_size:
  "width (loop_y y c) = width c \<and> height (loop_y y c) = height c"
proof (induction y c rule: loop_y.induct)
  case (1 y ctx)
  show ?case
  proof (cases "y < size_px")
    case True
    then show ?thesis
      using "1.IH" [OF True] by (simp add: loop_y.simps [of y ctx] loop_x_size)
  next
    case False
    then show ?thesis
      by (simp add: loop_y.simps [of y ctx])
  qed
qed

text \<open>
  C7. The raster is 32 by 32 texels; texel \<open>(x, y)\<close> is the light colour when \<open>x + y\<close>
  is even and the dark colour otherwise; the colours of the raster are exactly these
  two, and they are distinct; texels \<open>(x, y)\<close> and \<open>(x + 1, y)\<close> differ, within a row
  and also across the seam where the pattern repeats. The texture is a constant: it
  is built from fixed numbers and colours and reads no input.
\<close>

theorem createChessboardTexture_raster:
  "width (image_tex createChessboardTexture) = 32
   \<and> height (image_tex createChessboardTexture) = 32
   \<and> length (bitmap (image_tex createChessboardTexture)) = 32
   \<and> (y < 32 \<longrightarrow> length (bitmap (image_tex createChessboardTexture) ! y) = 32)
   \<and> (x < 32 \<and> y < 32 \<longrightarrow>
        texel_at (image_tex createChessboardTexture) x y
          = (if even (x + y) then light else dark))
   \<and> set (concat (bitmap (image_tex createChessboardTexture))) = {light, dark}
   \<and> card (set (concat (bitmap (image_tex createChessboardTexture)))) = 2
   \<and> (x + 1 < 32 \<and> y < 32 \<longrightarrow>
        texel_at (image_tex createChessboardTexture) x y
          \<noteq> texel_at (image_tex createChessboardTexture) (x + 1) y)
   \<and> (x < 32 \<and> y < 32 \<longrightarrow>
        texel_at (image_tex createChessboardTexture) x y
          \<noteq> texel_at (image_tex createChessboardTexture) ((x + 1) mod 32) y)"
proof -
  let ?img = "image_tex createChessboardTexture"
  have size: "width ?img = 32 \<and> height ?img = 32"
    by (simp add: image_createChessboardTexture loop_y_size set_height_def set_width_def
        size_px_def)
  have len: "length (bitmap ?img) = 32"
    using texture_raster by (simp add: size_px_def)
  have rows: "y < 32 \<longrightarrow> length (bitmap ?img ! y) = 32"
    using texture_raster by (simp add: size_px_def)
  have texel: "texel_at ?img i j = (if even (i + j) then light else dark)"
    if "i < 32" "j < 32" for i j
    using texel_createChessboardTexture [of i j] that
    by (simp add: size_px_def even_iff_mod_2_eq_zero)
  have two: "card (set (concat (bitmap ?img))) = 2"
    using light_dark by (simp only: colours_createChessboardTexture) simp
  have adjacent: "texel_at ?img x y \<noteq> texel_at ?img (x + 1) y" if "x + 1 < 32" "y < 32"
    using that light_dark by (simp add: texel)
  have seam: "texel_at ?img x y \<noteq> texel_at ?img ((x + 1) mod 32) y" if "x < 32" "y < 32"
  proof (cases "x + 1 < 32")
    case True
    then show ?thesis
      using adjacent that by simp
  next
    case False
    with that have "x = 31"
      by simp
    then show ?thesis
      using that light_dark by (simp add: texel)
  qed
  from size len rows texel [of x y] two adjacent seam colours_createChessboardTexture
  show ?thesis
    by blast
qed

theorem createChessboardTexture_raster_witness:
  "(3::nat) < 32 \<and> (4::nat) < 32
   \<and> length (bitmap (image_tex createChessboardTexture) ! 4) = 32
   \<and> texel_at (image_tex createChessboardTexture) 3 4 = dark
   \<and> texel_at (image_tex createChessboardTexture) 3 4
       \<noteq> texel_at (image_tex createChessboardTexture) 4 4"
  using createChessboardTexture_raster [of 4 3]
  by auto

end
